theory Spec2Isabelle
  imports Main
begin

section \<open>JavaScript values\<close>

text \<open>
  The values that flow through \<^verbatim>\<open>src/utils/hub-channel.js\<close>: the JSON payloads of the
  channel, the decoded permission token and the fields of the store. A number is either
  \<open>NaN\<close> or an integral value; on integers below \<open>2 ^ 53\<close> in magnitude the arithmetic of
  doubles is exact, and the time values of \<^verbatim>\<open>Date\<close> are such integers; rounding a
  larger integer is monotone, so it changes no comparison with a smaller constant. JSON
  arrays and non-integral numbers are not represented.
\<close>

datatype jsnum = NaN | Num int

datatype jsval =
    JUndefined
  | JNull
  | JBool bool
  | JNum jsnum
  | JStr string
  | JObj "(string \<times> jsval) list"

type_synonym jsobj = "(string \<times> jsval) list"

datatype error = TypeError | InvalidTokenError

text \<open>\<^verbatim>\<open>!!v\<close>: the falsy values are undefined, null, false, 0, NaN and the empty string.\<close>

fun truthy :: "jsval \<Rightarrow> bool" where
  "truthy JUndefined = False"
| "truthy JNull = False"
| "truthy (JBool b) = b"
| "truthy (JNum NaN) = False"
| "truthy (JNum (Num n)) = (n \<noteq> 0)"
| "truthy (JStr s) = (s \<noteq> [])"
| "truthy (JObj kvs) = True"

text \<open>
  \<^verbatim>\<open>obj.k\<close> on a plain object: the value bound to the key, undefined when the key is
  missing. (None of the keys read by the module is a property of \<^verbatim>\<open>Object.prototype\<close>.)
\<close>

definition get_prop :: "jsobj \<Rightarrow> string \<Rightarrow> jsval" where
  "get_prop obj k = (case map_of obj k of None \<Rightarrow> JUndefined | Some v \<Rightarrow> v)"

text \<open>Arithmetic and comparison of numbers: NaN propagates, and compares false.\<close>

fun num_mul :: "jsnum \<Rightarrow> jsnum \<Rightarrow> jsnum" where
  "num_mul (Num a) (Num b) = Num (a * b)"
| "num_mul _ _ = NaN"

fun num_sub :: "jsnum \<Rightarrow> jsnum \<Rightarrow> jsnum" where
  "num_sub (Num a) (Num b) = Num (a - b)"
| "num_sub _ _ = NaN"

fun num_gt :: "jsnum \<Rightarrow> jsnum \<Rightarrow> bool" where
  "num_gt (Num a) (Num b) = (a > b)"
| "num_gt _ _ = False"

fun num_eq :: "jsnum \<Rightarrow> jsnum \<Rightarrow> bool" where
  "num_eq (Num a) (Num b) = (a = b)"
| "num_eq _ _ = False"

section \<open>The runtime the module runs on\<close>

text \<open>
  What the module imports or takes from the browser, as parameters: the
  \<^verbatim>\<open>jwt-decode\<close> routine (it throws on a token it cannot decode, and otherwise returns
  the claims object), the parsing of date strings and of numeric strings, and the
  calendar fields of a time value in the client's local time zone.
\<close>

record runtime =
  jwtDecode :: "jsval \<Rightarrow> error + jsobj"
  Date_parse :: "string \<Rightarrow> jsnum"
  StringToNumber :: "string \<Rightarrow> jsnum"
  YearFromTime :: "int \<Rightarrow> int"
  MonthFromTime :: "int \<Rightarrow> int"
  DateFromTime :: "int \<Rightarrow> int"

fun ToNumber :: "runtime \<Rightarrow> jsval \<Rightarrow> jsnum" where
  "ToNumber rt JUndefined = NaN"
| "ToNumber rt JNull = Num 0"
| "ToNumber rt (JBool b) = Num (if b then 1 else 0)"
| "ToNumber rt (JNum n) = n"
| "ToNumber rt (JStr s) = StringToNumber rt s"
| "ToNumber rt (JObj kvs) = NaN"

text \<open>A \<^verbatim>\<open>Date\<close> is its time value: milliseconds since the epoch, or NaN (Invalid Date).\<close>

type_synonym date = jsnum

fun TimeClip :: "jsnum \<Rightarrow> jsnum" where
  "TimeClip NaN = NaN"
| "TimeClip (Num t) = (if \<bar>t\<bar> > 8640000000000000 then NaN else Num t)"

text \<open>\<^verbatim>\<open>new Date(v)\<close>: a string is parsed, anything else is converted to a number.\<close>

fun new_Date :: "runtime \<Rightarrow> jsval \<Rightarrow> date" where
  "new_Date rt (JStr s) = TimeClip (Date_parse rt s)"
| "new_Date rt (JObj kvs) = TimeClip (Date_parse rt ''[object Object]'')"
| "new_Date rt v = TimeClip (ToNumber rt v)"

fun getFullYear :: "runtime \<Rightarrow> date \<Rightarrow> jsnum" where
  "getFullYear rt NaN = NaN"
| "getFullYear rt (Num t) = Num (YearFromTime rt t)"

fun getMonth :: "runtime \<Rightarrow> date \<Rightarrow> jsnum" where
  "getMonth rt NaN = NaN"
| "getMonth rt (Num t) = Num (MonthFromTime rt t)"

fun getDate :: "runtime \<Rightarrow> date \<Rightarrow> jsnum" where
  "getDate rt NaN = NaN"
| "getDate rt (Num t) = Num (DateFromTime rt t)"

text \<open>
  \<^verbatim>\<open>setTimeout(handler, timeout)\<close> of the browser: the timeout is converted to a signed
  32-bit integer (NaN becomes 0, any other value wraps modulo \<open>2 ^ 32\<close>), and a negative
  result counts as 0. The handler runs once, that many milliseconds after the call at
  the earliest.
\<close>

definition timeout_ms :: "jsnum \<Rightarrow> int" where
  "timeout_ms d =
     (case d of
        NaN \<Rightarrow> 0
      | Num n \<Rightarrow>
          let x = n mod 2 ^ 32;
              y = (if x \<ge> 2 ^ 31 then x - 2 ^ 32 else x)
          in if y < 0 then 0 else y)"

section \<open>The module\<close>

definition MS_PER_DAY :: int where
  "MS_PER_DAY = 1000 * 60 * 60 * 24"

definition MS_PER_MONTH :: int where
  "MS_PER_MONTH = 1000 * 60 * 60 * 24 * 30"

definition isSameMonth :: "runtime \<Rightarrow> date \<Rightarrow> date \<Rightarrow> bool" where
  "isSameMonth rt da db \<longleftrightarrow>
     num_eq (getFullYear rt da) (getFullYear rt db) \<and> num_eq (getMonth rt da) (getMonth rt db)"

definition isSameDay :: "runtime \<Rightarrow> date \<Rightarrow> date \<Rightarrow> bool" where
  "isSameDay rt da db \<longleftrightarrow> isSameMonth rt da db \<and> num_eq (getDate rt da) (getDate rt db)"

subsection \<open>State\<close>

text \<open>The fields of \<^verbatim>\<open>store.state\<close> that the module reads.\<close>

record token_entry =
  entry_hubId :: string
  creatorAssignmentToken :: jsval

record store_state =
  credentials_token :: jsval
  activity_lastEnteredAt :: jsval
  creatorAssignmentTokens :: "token_entry list option"

text \<open>Calls made on the networking adapter \<^verbatim>\<open>NAF.connection.adapter\<close>.\<close>

datatype adapter_call = Block string | Unblock string

text \<open>
  A timer set with \<^verbatim>\<open>setTimeout\<close>: its handler, the delay passed, and the time at which
  it was set. The module sets timers with one handler only, the function that refreshes
  the permission token (\<open>run_handler\<close> and \<open>resume_handler\<close> below are what it does).
\<close>

datatype timer_handler = RefreshPermissions

record timer =
  timer_handler :: timer_handler
  timer_delay :: jsnum
  timer_set_at :: int

text \<open>The time at which the handler of a timer runs.\<close>

definition fires_at :: "timer \<Rightarrow> int" where
  "fires_at tm = timer_set_at tm + timeout_ms (timer_delay tm)"

text \<open>
  A \<^verbatim>\<open>HubChannel\<close> object together with what it acts on. The fields \<open>p_signedIn\<close>,
  \<open>p_permissions\<close> and \<open>p_blockedSessionIds\<close> are \<^verbatim>\<open>_signedIn\<close>, \<^verbatim>\<open>_permissions\<close> and
  \<^verbatim>\<open>_blockedSessionIds\<close>. \<open>channel\<close> is undefined (\<open>None\<close>) until
  \<^verbatim>\<open>setPhoenixChannel\<close>, and then holds the requests pushed so far, oldest first.
  \<open>events\<close> are the events dispatched on the object (type and detail), \<open>timeouts\<close> the
  timers set with \<^verbatim>\<open>setTimeout\<close>, oldest first, \<open>adapter\<close> the calls on the networking
  adapter (\<open>None\<close> while there is no adapter) and \<open>completeSyncs\<close> the calls of
  \<^verbatim>\<open>NAF.connection.entities.completeSync\<close>.
\<close>

record hub =
  store :: store_state
  hubId :: string
  p_signedIn :: bool
  p_permissions :: jsobj
  p_blockedSessionIds :: "string set"
  channel :: "(string \<times> jsval) list option"
  events :: "(string \<times> jsval) list"
  timeouts :: "timer list"
  adapter :: "adapter_call list option"
  completeSyncs :: "string list"

text \<open>The state of a promise returned by the module.\<close>

datatype promise = Pending | Resolved jsval | Rejected jsval | RejectedWith error

subsection \<open>Construction and accessors\<close>

text \<open>
  The object after \<^verbatim>\<open>new HubChannel(store, hubId)\<close>, before anything else has happened:
  no channel, no adapter, nothing dispatched and no timer set.
\<close>

definition HubChannel :: "store_state \<Rightarrow> string \<Rightarrow> hub" where
  "HubChannel st hid =
     \<lparr>store = st, hubId = hid, p_signedIn = truthy (credentials_token st),
      p_permissions = [], p_blockedSessionIds = {}, channel = None, events = [],
      timeouts = [], adapter = None, completeSyncs = []\<rparr>"

definition signedIn :: "hub \<Rightarrow> bool" where
  "signedIn h = p_signedIn h"

definition setPhoenixChannel :: "hub \<Rightarrow> hub" where
  "setPhoenixChannel h = h\<lparr>channel := Some []\<rparr>"

subsection \<open>Effects\<close>

text \<open>\<^verbatim>\<open>this.dispatchEvent(new CustomEvent(type, {detail}))\<close>; the detail is null when omitted.\<close>

definition dispatchEvent :: "string \<Rightarrow> jsval \<Rightarrow> hub \<Rightarrow> hub" where
  "dispatchEvent ty detail h = h\<lparr>events := events h @ [(ty, detail)]\<rparr>"

text \<open>\<^verbatim>\<open>setTimeout(handler, delay)\<close>, called at the time \<open>now\<close>.\<close>

definition setTimeout :: "timer_handler \<Rightarrow> jsnum \<Rightarrow> int \<Rightarrow> hub \<Rightarrow> hub" where
  "setTimeout handler delay now h =
     h\<lparr>timeouts := timeouts h @
          [\<lparr>timer_handler = handler, timer_delay = delay, timer_set_at = now\<rparr>]\<rparr>"

text \<open>\<^verbatim>\<open>this.channel.push(event, payload)\<close>: a TypeError while the channel is undefined.\<close>

definition channel_push :: "string \<Rightarrow> jsval \<Rightarrow> hub \<Rightarrow> error + hub" where
  "channel_push ev payload h =
     (case channel h of
        None \<Rightarrow> Inl TypeError
      | Some ps \<Rightarrow> Inr (h\<lparr>channel := Some (ps @ [(ev, payload)])\<rparr>))"

subsection \<open>Permissions\<close>

text \<open>
  \<open>now\<close> is the time at which the function runs: the time value of the \<^verbatim>\<open>new Date()\<close>
  that it evaluates, and the time at which it sets the timer. The result is \<open>Inl\<close> when
  the function throws, which it does before it changes anything.
\<close>

definition setPermissionsFromToken :: "runtime \<Rightarrow> int \<Rightarrow> jsval \<Rightarrow> hub \<Rightarrow> error + hub" where
  "setPermissionsFromToken rt now token h =
     (case jwtDecode rt token of
        Inl e \<Rightarrow> Inl e
      | Inr perms \<Rightarrow>
          let h1 = h\<lparr>p_permissions := perms\<rparr>;
              h2 = dispatchEvent ''permissions_updated'' JNull h1;
              nextRefresh =
                num_sub
                  (TimeClip (num_sub (num_mul (ToNumber rt (get_prop perms ''exp'')) (Num 1000))
                                     (Num (60 * 1000))))
                  (Num now)
          in Inr (setTimeout RefreshPermissions nextRefresh now h2))"

subsection \<open>Entry timing flags\<close>

record entryTimingFlags =
  isNewDaily :: bool
  isNewMonthly :: bool
  isNewDayWindow :: bool
  isNewMonthWindow :: bool

definition getEntryTimingFlags :: "runtime \<Rightarrow> int \<Rightarrow> hub \<Rightarrow> entryTimingFlags" where
  "getEntryTimingFlags rt now h =
     (let entryTimingFlags =
            \<lparr>isNewDaily = True, isNewMonthly = True, isNewDayWindow = True,
             isNewMonthWindow = True\<rparr>;
          storedLastEnteredAt = activity_lastEnteredAt (store h)
      in if \<not> truthy storedLastEnteredAt then entryTimingFlags
         else
           let lastEntered = new_Date rt storedLastEnteredAt;
               msSinceLastEntered = num_sub (Num now) lastEntered
           in entryTimingFlags
                \<lparr>isNewDaily := \<not> isSameDay rt (Num now) lastEntered,
                 isNewMonthly := \<not> isSameMonth rt (Num now) lastEntered,
                 isNewDayWindow := num_gt msSinceLastEntered (Num MS_PER_DAY),
                 isNewMonthWindow := num_gt msSinceLastEntered (Num MS_PER_MONTH)\<rparr>)"

subsection \<open>Authorization-gated calls\<close>

text \<open>
  The result is \<open>Inl\<close> when the call throws (nothing has changed then), and otherwise the
  returned value with the new state.
\<close>

definition updateScene :: "jsval \<Rightarrow> hub \<Rightarrow> error + jsval \<times> hub" where
  "updateScene url h =
     (if \<not> truthy (get_prop (p_permissions h) ''update_hub'') then Inr (JStr ''unauthorized'', h)
      else case channel_push ''update_scene'' (JObj [(''url'', url)]) h of
             Inl e \<Rightarrow> Inl e
           | Inr h' \<Rightarrow> Inr (JUndefined, h'))"

definition rename :: "jsval \<Rightarrow> hub \<Rightarrow> error + jsval \<times> hub" where
  "rename name h =
     (if \<not> truthy (get_prop (p_permissions h) ''update_hub'') then Inr (JStr ''unauthorized'', h)
      else case channel_push ''update_hub'' (JObj [(''name'', name)]) h of
             Inl e \<Rightarrow> Inl e
           | Inr h' \<Rightarrow> Inr (JUndefined, h'))"

definition closeHub :: "hub \<Rightarrow> error + jsval \<times> hub" where
  "closeHub h =
     (if \<not> truthy (get_prop (p_permissions h) ''close_hub'') then Inr (JStr ''unauthorized'', h)
      else case channel_push ''close_hub'' (JObj []) h of
             Inl e \<Rightarrow> Inl e
           | Inr h' \<Rightarrow> Inr (JUndefined, h'))"

subsection \<open>Requests with an acknowledgment\<close>

text \<open>
  A call that returns a promise pushes its request inside the promise's executor, so
  that an exception of the push rejects the promise. The callbacks registered with
  \<^verbatim>\<open>receive\<close> run when the acknowledgment arrives: the \<open>_receive\<close> function of a call
  takes the status and the response object of the acknowledgment, and returns the state
  of the promise after the callback with the new state, or \<open>Inl\<close> when the callback
  throws (nothing has changed then, and the promise stays pending). A status with no
  callback leaves the promise pending.
\<close>

definition getCreatorAssignmentToken :: "hub \<Rightarrow> jsval" where
  "getCreatorAssignmentToken h =
     (case creatorAssignmentTokens (store h) of
        None \<Rightarrow> JUndefined
      | Some ts \<Rightarrow>
          (case find (\<lambda>t. entry_hubId t = hubId h) ts of
             None \<Rightarrow> JUndefined
           | Some t \<Rightarrow> creatorAssignmentToken t))"

definition request :: "string \<Rightarrow> jsval \<Rightarrow> hub \<Rightarrow> promise \<times> hub" where
  "request ev payload h =
     (case channel_push ev payload h of
        Inl e \<Rightarrow> (RejectedWith e, h)
      | Inr h' \<Rightarrow> (Pending, h'))"

definition signIn :: "jsval \<Rightarrow> hub \<Rightarrow> promise \<times> hub" where
  "signIn token h =
     (let creator_assignment_token = getCreatorAssignmentToken h
      in request ''sign_in''
           (JObj [(''token'', token), (''creator_assignment_token'', creator_assignment_token)]) h)"

definition signIn_receive ::
  "runtime \<Rightarrow> int \<Rightarrow> string \<Rightarrow> jsobj \<Rightarrow> hub \<Rightarrow> error + promise \<times> hub" where
  "signIn_receive rt now status resp h =
     (if status = ''ok'' then
        (case setPermissionsFromToken rt now (get_prop resp ''perms_token'') h of
           Inl e \<Rightarrow> Inl e
         | Inr h' \<Rightarrow> Inr (Resolved JUndefined, h'\<lparr>p_signedIn := True\<rparr>))
      else if status = ''error'' then
        (if get_prop resp ''reason'' = JStr ''invalid_token'' then Inr (Resolved JUndefined, h)
         else Inr (Rejected JUndefined, h))
      else Inr (Pending, h))"

definition signOut :: "hub \<Rightarrow> promise \<times> hub" where
  "signOut h = request ''sign_out'' JUndefined h"

definition signOut_receive :: "string \<Rightarrow> jsobj \<Rightarrow> hub \<Rightarrow> error + promise \<times> hub" where
  "signOut_receive status resp h =
     (if status = ''ok'' then
        Inr (Resolved JUndefined,
             dispatchEvent ''permissions_updated'' JNull (h\<lparr>p_permissions := [], p_signedIn := False\<rparr>))
      else if status = ''error'' then Inr (Rejected (JObj resp), h)
      else Inr (Pending, h))"

definition getHost :: "hub \<Rightarrow> promise \<times> hub" where
  "getHost h = request ''get_host'' JUndefined h"

definition getHost_receive :: "string \<Rightarrow> jsobj \<Rightarrow> hub \<Rightarrow> error + promise \<times> hub" where
  "getHost_receive status resp h =
     (if status = ''ok'' then Inr (Resolved (get_prop resp ''host''), h)
      else if status = ''error'' then Inr (Rejected (JObj resp), h)
      else Inr (Pending, h))"

definition pin :: "jsval \<Rightarrow> jsval \<Rightarrow> jsval \<Rightarrow> jsval \<Rightarrow> jsval \<Rightarrow> hub \<Rightarrow> promise \<times> hub" where
  "pin ident gltfNode fileId fileAccessToken promotionToken h =
     (let payload = [(''id'', ident), (''gltf_node'', gltfNode)];
          payload' =
            (if truthy fileId \<and> truthy promotionToken
             then payload @ [(''file_id'', fileId), (''file_access_token'', fileAccessToken),
                             (''promotion_token'', promotionToken)]
             else payload)
      in request ''pin'' (JObj payload') h)"

definition pin_receive :: "string \<Rightarrow> jsobj \<Rightarrow> hub \<Rightarrow> error + promise \<times> hub" where
  "pin_receive status resp h =
     (if status = ''ok'' then Inr (Resolved (JObj resp), h)
      else if status = ''error'' then Inr (Rejected (JObj resp), h)
      else Inr (Pending, h))"

definition fetchPermissions :: "hub \<Rightarrow> promise \<times> hub" where
  "fetchPermissions h = request ''refresh_perms_token'' JUndefined h"

definition fetchPermissions_receive ::
  "runtime \<Rightarrow> int \<Rightarrow> string \<Rightarrow> jsobj \<Rightarrow> hub \<Rightarrow> error + promise \<times> hub" where
  "fetchPermissions_receive rt now status resp h =
     (if status = ''ok'' then
        (case setPermissionsFromToken rt now (get_prop resp ''perms_token'') h of
           Inl e \<Rightarrow> Inl e
         | Inr h' \<Rightarrow>
             Inr (Resolved (JObj [(''permsToken'', get_prop resp ''perms_token''),
                                  (''permissions'', JObj (p_permissions h'))]), h'))
      else if status = ''error'' then Inr (Rejected (JObj resp), h)
      else Inr (Pending, h))"

text \<open>
  The handler of the refresh timer,
  \<^verbatim>\<open>async () => { const result = await this.fetchPermissions(); this.dispatchEvent(new CustomEvent("permissions-refreshed", { detail: result })); }\<close>:
  it calls \<^verbatim>\<open>fetchPermissions\<close>, and resumes when that promise is settled. On a
  resolved promise it dispatches "permissions-refreshed" with the result as detail; on a
  rejected one it dispatches nothing.
\<close>

fun run_handler :: "timer_handler \<Rightarrow> hub \<Rightarrow> promise \<times> hub" where
  "run_handler RefreshPermissions h = fetchPermissions h"

fun resume_handler :: "timer_handler \<Rightarrow> promise \<Rightarrow> hub \<Rightarrow> hub" where
  "resume_handler RefreshPermissions (Resolved result) h =
     dispatchEvent ''permissions-refreshed'' result h"
| "resume_handler RefreshPermissions _ h = h"

subsection \<open>Hiding sessions\<close>

text \<open>A call on the adapter is a TypeError while \<^verbatim>\<open>NAF.connection.adapter\<close> is null.\<close>

definition hide :: "string \<Rightarrow> hub \<Rightarrow> error + hub" where
  "hide sessionId h =
     (case adapter h of
        None \<Rightarrow> Inl TypeError
      | Some cs \<Rightarrow>
          Inr (h\<lparr>adapter := Some (cs @ [Block sessionId]),
                 p_blockedSessionIds := insert sessionId (p_blockedSessionIds h)\<rparr>))"

definition unhide :: "string \<Rightarrow> hub \<Rightarrow> error + hub" where
  "unhide sessionId h =
     (if sessionId \<notin> p_blockedSessionIds h then Inr h
      else case adapter h of
             None \<Rightarrow> Inl TypeError
           | Some cs \<Rightarrow>
               Inr (h\<lparr>adapter := Some (cs @ [Unblock sessionId]),
                      completeSyncs := completeSyncs h @ [sessionId],
                      p_blockedSessionIds := p_blockedSessionIds h - {sessionId}\<rparr>))"

definition isHidden :: "string \<Rightarrow> hub \<Rightarrow> bool" where
  "isHidden sessionId h \<longleftrightarrow> sessionId \<in> p_blockedSessionIds h"

section \<open>A concrete runtime\<close>

text \<open>
  To run the model on concrete inputs: a client in the UTC time zone. The calendar
  fields of a time value follow the proleptic Gregorian calendar, counted in eras of
  400 years from 1 March of year 0; months are numbered from 0, as \<^verbatim>\<open>getMonth\<close> does.
\<close>

definition civil_from_days :: "int \<Rightarrow> int \<times> int \<times> int" where
  "civil_from_days z0 =
     (let z = z0 + 719468;
          era = z div 146097;
          doe = z - era * 146097;
          yoe = (doe - doe div 1460 + doe div 36524 - doe div 146096) div 365;
          doy = doe - (365 * yoe + yoe div 4 - yoe div 100);
          mp = (5 * doy + 2) div 153;
          d = doy - (153 * mp + 2) div 5 + 1;
          m = (if mp < 10 then mp + 3 else mp - 9);
          y = yoe + era * 400 + (if m \<le> 2 then 1 else 0)
      in (y, m - 1, d))"

definition sample_decode :: "jsval \<Rightarrow> error + jsobj" where
  "sample_decode token =
     (if token = JStr ''moderator'' then
        Inr [(''update_hub'', JBool True), (''close_hub'', JBool False),
             (''exp'', JNum (Num 1600000000))]
      else if token = JStr ''hourly'' then Inr [(''exp'', JNum (Num 1584277200))]
      else if token = JStr ''far'' then Inr [(''exp'', JNum (Num 10000000000000))]
      else Inl InvalidTokenError)"

definition sample_parse :: "string \<Rightarrow> jsnum" where
  "sample_parse s = (if s = ''2020-03-14T13:00:00.000Z'' then Num 1584190800000 else NaN)"

definition utc_runtime :: runtime where
  "utc_runtime =
     \<lparr>jwtDecode = sample_decode, Date_parse = sample_parse, StringToNumber = (\<lambda>s. NaN),
      YearFromTime = (\<lambda>t. fst (civil_from_days (t div 86400000))),
      MonthFromTime = (\<lambda>t. fst (snd (civil_from_days (t div 86400000)))),
      DateFromTime = (\<lambda>t. snd (snd (civil_from_days (t div 86400000))))\<rparr>"

definition empty_store :: store_state where
  "empty_store =
     \<lparr>credentials_token = JUndefined, activity_lastEnteredAt = JUndefined,
      creatorAssignmentTokens = None\<rparr>"

text \<open>A freshly constructed object, with a channel attached and an adapter connected.\<close>

definition connected_hub :: hub where
  "connected_hub = (setPhoenixChannel (HubChannel empty_store ''hub1''))\<lparr>adapter := Some []\<rparr>"

text \<open>The same object with a last entry stored: 14 March 2020, 13:00 UTC.\<close>

definition visited_hub :: hub where
  "visited_hub =
     connected_hub\<lparr>store := empty_store\<lparr>activity_lastEnteredAt := JStr ''2020-03-14T13:00:00.000Z''\<rparr>\<rparr>"

text \<open>The same object holding the permission to update the hub.\<close>

definition moderator_hub :: hub where
  "moderator_hub = connected_hub\<lparr>p_permissions := [(''update_hub'', JBool True)]\<rparr>"

section \<open>Auxiliary facts\<close>

lemma get_prop_simps:
  "get_prop [] k = JUndefined"
  "get_prop ((k', v) # kvs) k = (if k' = k then v else get_prop kvs k)"
  by (simp_all add: get_prop_def)

lemma connected_hub_simps:
  "p_permissions connected_hub = []"
  "channel connected_hub = Some []"
  "adapter connected_hub = Some []"
  "p_blockedSessionIds connected_hub = {}"
  "activity_lastEnteredAt (store connected_hub) = JUndefined"
  "events connected_hub = []"
  "timeouts connected_hub = []"
  "p_signedIn connected_hub = False"
  by (simp_all add: connected_hub_def setPhoenixChannel_def HubChannel_def empty_store_def)

lemma civil_2020_03_15: "civil_from_days 18336 = (2020, 2, 15)"
  by code_simp

lemma civil_2020_03_14: "civil_from_days 18335 = (2020, 2, 14)"
  by code_simp

lemma utc_fields:
  "YearFromTime utc_runtime 1584273600000 = 2020"
  "MonthFromTime utc_runtime 1584273600000 = 2"
  "DateFromTime utc_runtime 1584273600000 = 15"
  "YearFromTime utc_runtime 1584190800000 = 2020"
  "MonthFromTime utc_runtime 1584190800000 = 2"
  "DateFromTime utc_runtime 1584190800000 = 14"
  by (simp_all add: utc_runtime_def civil_2020_03_15 civil_2020_03_14)

lemma visited_hub_date:
  "truthy (activity_lastEnteredAt (store visited_hub))"
  "new_Date utc_runtime (activity_lastEnteredAt (store visited_hub)) = Num 1584190800000"
  by (simp_all add: visited_hub_def empty_store_def utc_runtime_def sample_parse_def)

lemma moderator_decoded:
  "jwtDecode utc_runtime (JStr ''moderator'') =
     Inr [(''update_hub'', JBool True), (''close_hub'', JBool False),
          (''exp'', JNum (Num 1600000000))]"
  by (simp add: utc_runtime_def sample_decode_def)

lemma num_gt_sub: "num_gt (num_sub (Num a) d) (Num c) \<longleftrightarrow> (\<exists>t. d = Num t \<and> a - t > c)"
  by (cases d) auto

section \<open>Authorization-gated calls\<close>

text \<open>
  C1. Whenever the cached \<^verbatim>\<open>update_hub\<close> flag is falsy, \<^verbatim>\<open>rename(name)\<close> and
  \<^verbatim>\<open>updateScene(url)\<close> return the string "unauthorized", and whenever the cached
  \<^verbatim>\<open>close_hub\<close> flag is falsy, so does \<^verbatim>\<open>closeHub()\<close>. The state after the call is the
  state before it: in particular nothing has been pushed to the channel.
\<close>

theorem gated_calls_unauthorized:
  "(\<not> truthy (get_prop (p_permissions h) ''update_hub'') \<longrightarrow>
      rename name h = Inr (JStr ''unauthorized'', h) \<and>
      updateScene url h = Inr (JStr ''unauthorized'', h)) \<and>
   (\<not> truthy (get_prop (p_permissions h) ''close_hub'') \<longrightarrow>
      closeHub h = Inr (JStr ''unauthorized'', h))"
  by (simp add: rename_def updateScene_def closeHub_def)

text \<open>An object whose flags are \<^verbatim>\<open>false\<close> and \<^verbatim>\<open>0\<close>: the three calls are refused.\<close>

theorem gated_calls_unauthorized_witness:
  "\<not> truthy (get_prop (p_permissions (connected_hub\<lparr>p_permissions :=
        [(''update_hub'', JBool False), (''close_hub'', JNum (Num 0))]\<rparr>)) ''update_hub'') \<and>
   \<not> truthy (get_prop (p_permissions (connected_hub\<lparr>p_permissions :=
        [(''update_hub'', JBool False), (''close_hub'', JNum (Num 0))]\<rparr>)) ''close_hub'') \<and>
   rename (JStr ''Lobby'')
       (connected_hub\<lparr>p_permissions :=
          [(''update_hub'', JBool False), (''close_hub'', JNum (Num 0))]\<rparr>) =
     Inr (JStr ''unauthorized'',
          connected_hub\<lparr>p_permissions :=
            [(''update_hub'', JBool False), (''close_hub'', JNum (Num 0))]\<rparr>) \<and>
   updateScene (JStr ''https://example.org/scene'')
       (connected_hub\<lparr>p_permissions :=
          [(''update_hub'', JBool False), (''close_hub'', JNum (Num 0))]\<rparr>) =
     Inr (JStr ''unauthorized'',
          connected_hub\<lparr>p_permissions :=
            [(''update_hub'', JBool False), (''close_hub'', JNum (Num 0))]\<rparr>) \<and>
   closeHub
       (connected_hub\<lparr>p_permissions :=
          [(''update_hub'', JBool False), (''close_hub'', JNum (Num 0))]\<rparr>) =
     Inr (JStr ''unauthorized'',
          connected_hub\<lparr>p_permissions :=
            [(''update_hub'', JBool False), (''close_hub'', JNum (Num 0))]\<rparr>)"
  using gated_calls_unauthorized
    [of "connected_hub\<lparr>p_permissions :=
           [(''update_hub'', JBool False), (''close_hub'', JNum (Num 0))]\<rparr>"
        "JStr ''Lobby''" "JStr ''https://example.org/scene''"]
  by (simp add: get_prop_simps)

text \<open>
  C9. \<^verbatim>\<open>updateScene(url)\<close> returns "unauthorized" exactly when the cached
  \<^verbatim>\<open>update_hub\<close> flag is falsy. When the flag is truthy and a channel is attached, the
  call pushes one \<^verbatim>\<open>update_scene\<close> request carrying the url and returns undefined.
  \<^verbatim>\<open>rename\<close> is refused in exactly the states in which \<^verbatim>\<open>updateScene\<close> is.
\<close>

theorem updateScene_gate:
  "((\<exists>h'. updateScene url h = Inr (JStr ''unauthorized'', h')) \<longleftrightarrow>
      \<not> truthy (get_prop (p_permissions h) ''update_hub'')) \<and>
   (truthy (get_prop (p_permissions h) ''update_hub'') \<and> channel h = Some ps \<longrightarrow>
      updateScene url h =
        Inr (JUndefined, h\<lparr>channel := Some (ps @ [(''update_scene'', JObj [(''url'', url)])])\<rparr>)) \<and>
   ((\<exists>h'. rename name h = Inr (JStr ''unauthorized'', h')) \<longleftrightarrow>
      (\<exists>h'. updateScene url h = Inr (JStr ''unauthorized'', h')))"
  by (auto simp: updateScene_def rename_def channel_push_def split: option.splits)

theorem updateScene_gate_witness:
  "truthy (get_prop (p_permissions moderator_hub) ''update_hub'') \<and>
   channel moderator_hub = Some [] \<and>
   updateScene (JStr ''https://example.org/scene'') moderator_hub =
     Inr (JUndefined,
          moderator_hub\<lparr>channel :=
            Some [(''update_scene'', JObj [(''url'', JStr ''https://example.org/scene'')])]\<rparr>)"
  using updateScene_gate
    [of "JStr ''https://example.org/scene''" moderator_hub "[]" "JStr ''Lobby''"]
  by (simp add: moderator_hub_def connected_hub_simps get_prop_simps)

section \<open>Signing in and out\<close>

text \<open>
  C2. On an "ok" acknowledgment of \<^verbatim>\<open>sign_in\<close>: if the promise is resolved, then
  \<^verbatim>\<open>signedIn\<close> is true and the permission set is what \<^verbatim>\<open>jwtDecode\<close> returns for the
  \<^verbatim>\<open>perms_token\<close> of the acknowledgment; and whenever \<^verbatim>\<open>jwtDecode\<close> returns a claims
  object for that token, the promise is resolved in such a state.
\<close>

theorem signIn_ok_sets_permissions:
  "(signIn_receive rt now ''ok'' resp h = Inr (Resolved v, h') \<longrightarrow>
      signedIn h' \<and> jwtDecode rt (get_prop resp ''perms_token'') = Inr (p_permissions h')) \<and>
   (jwtDecode rt (get_prop resp ''perms_token'') = Inr perms \<longrightarrow>
      (\<exists>h''. signIn_receive rt now ''ok'' resp h = Inr (Resolved JUndefined, h'') \<and>
             signedIn h'' \<and> p_permissions h'' = perms))"
  by (auto simp: signIn_receive_def setPermissionsFromToken_def signedIn_def Let_def
      dispatchEvent_def setTimeout_def split: sum.splits)

theorem signIn_ok_sets_permissions_witness:
  "signIn_receive utc_runtime 1584273600000 ''ok'' [(''perms_token'', JStr ''moderator'')]
       connected_hub =
     Inr (Resolved JUndefined,
          connected_hub
            \<lparr>p_signedIn := True,
             p_permissions := [(''update_hub'', JBool True), (''close_hub'', JBool False),
                               (''exp'', JNum (Num 1600000000))],
             events := [(''permissions_updated'', JNull)],
             timeouts :=
               [\<lparr>timer_handler = RefreshPermissions, timer_delay = Num 15726340000,
                 timer_set_at = 1584273600000\<rparr>]\<rparr>) \<and>
   signedIn
     (connected_hub
        \<lparr>p_signedIn := True,
         p_permissions := [(''update_hub'', JBool True), (''close_hub'', JBool False),
                           (''exp'', JNum (Num 1600000000))],
         events := [(''permissions_updated'', JNull)],
         timeouts :=
               [\<lparr>timer_handler = RefreshPermissions, timer_delay = Num 15726340000,
                 timer_set_at = 1584273600000\<rparr>]\<rparr>) \<and>
   jwtDecode utc_runtime (get_prop [(''perms_token'', JStr ''moderator'')] ''perms_token'') =
     Inr [(''update_hub'', JBool True), (''close_hub'', JBool False),
          (''exp'', JNum (Num 1600000000))]"
  using signIn_ok_sets_permissions
    [of utc_runtime 1584273600000 "[(''perms_token'', JStr ''moderator'')]" connected_hub
        JUndefined
        "connected_hub
           \<lparr>p_signedIn := True,
            p_permissions := [(''update_hub'', JBool True), (''close_hub'', JBool False),
                              (''exp'', JNum (Num 1600000000))],
            events := [(''permissions_updated'', JNull)],
            timeouts :=
               [\<lparr>timer_handler = RefreshPermissions, timer_delay = Num 15726340000,
                 timer_set_at = 1584273600000\<rparr>]\<rparr>"
        "[(''update_hub'', JBool True), (''close_hub'', JBool False),
          (''exp'', JNum (Num 1600000000))]"]
  by (simp add: signIn_receive_def setPermissionsFromToken_def Let_def dispatchEvent_def
      setTimeout_def get_prop_simps moderator_decoded connected_hub_simps signedIn_def)

text \<open>
  C3. On an "error" acknowledgment of \<^verbatim>\<open>sign_in\<close> the promise is resolved when the
  reason is the string "invalid_token" and rejected for any other reason, and the state
  (\<^verbatim>\<open>signedIn\<close> included) is left as it was. On an "error" acknowledgment of
  \<^verbatim>\<open>sign_out\<close>, \<^verbatim>\<open>get_host\<close>, \<^verbatim>\<open>pin\<close> and \<^verbatim>\<open>refresh_perms_token\<close> the promise is
  rejected with the response.
\<close>

theorem remote_failures:
  "signIn_receive rt now ''error'' err h =
     Inr (if get_prop err ''reason'' = JStr ''invalid_token'' then Resolved JUndefined
          else Rejected JUndefined, h) \<and>
   signOut_receive ''error'' err h = Inr (Rejected (JObj err), h) \<and>
   getHost_receive ''error'' err h = Inr (Rejected (JObj err), h) \<and>
   pin_receive ''error'' err h = Inr (Rejected (JObj err), h) \<and>
   fetchPermissions_receive rt now ''error'' err h = Inr (Rejected (JObj err), h)"
  by (simp add: signIn_receive_def signOut_receive_def getHost_receive_def pin_receive_def
      fetchPermissions_receive_def)

text \<open>
  C6. On an "ok" acknowledgment of \<^verbatim>\<open>sign_out\<close> the promise is resolved, the permission
  set is the empty object, \<^verbatim>\<open>signedIn\<close> is false and one "permissions_updated" event has
  been dispatched. On an "error" acknowledgment the state is left as it was.
\<close>

theorem signOut_ack:
  "(\<exists>h'. signOut_receive ''ok'' resp h = Inr (Resolved JUndefined, h') \<and>
         p_permissions h' = [] \<and> \<not> signedIn h' \<and>
         events h' = events h @ [(''permissions_updated'', JNull)]) \<and>
   signOut_receive ''error'' resp h = Inr (Rejected (JObj resp), h)"
  by (simp add: signOut_receive_def dispatchEvent_def signedIn_def)

section \<open>Refreshing the permission token\<close>

text \<open>
  What \<^verbatim>\<open>setPermissionsFromToken\<close> does for a token whose \<^verbatim>\<open>exp\<close> is the number \<open>e\<close>,
  when the refresh instant \<open>e * 1000 - 60000\<close> is not in the past and at most
  \<open>2 ^ 31 - 1\<close> ms (about 24.8 days) ahead: it stores the permission set, dispatches one
  "permissions_updated" event, and sets one timer with the refresh handler and the delay
  \<open>e * 1000 - 60000 - now\<close>, which fires one minute before the expiry.
\<close>

lemma refresh_timer_in_window:
  assumes "jwtDecode rt token = Inr perms"
    and "get_prop perms ''exp'' = JNum (Num e)"
    and "\<bar>e * 1000 - 60000\<bar> \<le> 8640000000000000"
    and "0 \<le> e * 1000 - 60000 - now"
    and "e * 1000 - 60000 - now \<le> 2147483647"
  shows "setPermissionsFromToken rt now token h =
     Inr (h\<lparr>p_permissions := perms,
            events := events h @ [(''permissions_updated'', JNull)],
            timeouts := timeouts h @
              [\<lparr>timer_handler = RefreshPermissions,
                timer_delay = Num (e * 1000 - 60000 - now), timer_set_at = now\<rparr>]\<rparr>) \<and>
   fires_at \<lparr>timer_handler = RefreshPermissions,
             timer_delay = Num (e * 1000 - 60000 - now), timer_set_at = now\<rparr> =
     e * 1000 - 60000"
proof -
  let ?d = "e * 1000 - 60000 - now"
  have "?d mod 2 ^ 32 = ?d"
    using assms(4,5) by simp
  then have "timeout_ms (Num ?d) = ?d"
    using assms(4,5) by (simp add: timeout_ms_def Let_def)
  then show ?thesis
    using assms(1,2,3)
    by (simp add: setPermissionsFromToken_def Let_def dispatchEvent_def setTimeout_def
        fires_at_def)
qed

text \<open>
  A token that expires one hour after the current time: the refresh fires after 59
  minutes, and then pushes a \<^verbatim>\<open>refresh_perms_token\<close> request.
\<close>

lemma refresh_timer_hourly:
  "setPermissionsFromToken utc_runtime 1584273600000 (JStr ''hourly'') connected_hub =
     Inr (connected_hub
            \<lparr>p_permissions := [(''exp'', JNum (Num 1584277200))],
             events := [(''permissions_updated'', JNull)],
             timeouts :=
               [\<lparr>timer_handler = RefreshPermissions, timer_delay = Num 3540000,
                 timer_set_at = 1584273600000\<rparr>]\<rparr>) \<and>
   fires_at \<lparr>timer_handler = RefreshPermissions, timer_delay = Num 3540000,
             timer_set_at = 1584273600000\<rparr> = 1584277200 * 1000 - 60000 \<and>
   run_handler RefreshPermissions connected_hub =
     (Pending, connected_hub\<lparr>channel := Some [(''refresh_perms_token'', JUndefined)]\<rparr>)"
proof -
  have d: "jwtDecode utc_runtime (JStr ''hourly'') = Inr [(''exp'', JNum (Num 1584277200))]"
    by (simp add: utc_runtime_def sample_decode_def)
  have r: "run_handler RefreshPermissions connected_hub =
     (Pending, connected_hub\<lparr>channel := Some [(''refresh_perms_token'', JUndefined)]\<rparr>)"
    by (simp add: fetchPermissions_def request_def channel_push_def connected_hub_simps)
  from refresh_timer_in_window
    [of utc_runtime "JStr ''hourly''" "[(''exp'', JNum (Num 1584277200))]" 1584277200
        1584273600000 connected_hub] d r
  show ?thesis by (simp add: get_prop_simps connected_hub_simps)
qed

text \<open>
  C8. The claim fails on the code for an expiry beyond the range of \<^verbatim>\<open>Date\<close>. With
  \<open>exp = 10000000000000\<close> the date \<^verbatim>\<open>new Date(exp * 1000 - 60 * 1000)\<close> is invalid, the
  delay passed to \<^verbatim>\<open>setTimeout\<close> is NaN and not \<open>exp * 1000 - 60000 - now\<close>, and the
  refresh handler runs at once, not one minute before the expiry. The event
  "permissions_updated" is dispatched as claimed.
\<close>

theorem refresh_timer_far_expiry:
  "jwtDecode utc_runtime (JStr ''far'') = Inr [(''exp'', JNum (Num 10000000000000))] \<and>
   setPermissionsFromToken utc_runtime 1584273600000 (JStr ''far'') connected_hub =
     Inr (connected_hub
            \<lparr>p_permissions := [(''exp'', JNum (Num 10000000000000))],
             events := [(''permissions_updated'', JNull)],
             timeouts :=
               [\<lparr>timer_handler = RefreshPermissions, timer_delay = NaN,
                 timer_set_at = 1584273600000\<rparr>]\<rparr>) \<and>
   NaN \<noteq> Num (10000000000000 * 1000 - 60000 - 1584273600000) \<and>
   fires_at \<lparr>timer_handler = RefreshPermissions, timer_delay = NaN,
             timer_set_at = 1584273600000\<rparr> = 1584273600000 \<and>
   fires_at \<lparr>timer_handler = RefreshPermissions, timer_delay = NaN,
             timer_set_at = 1584273600000\<rparr> \<noteq> 10000000000000 * 1000 - 60000"
  by (simp add: setPermissionsFromToken_def Let_def dispatchEvent_def setTimeout_def
      utc_runtime_def sample_decode_def get_prop_simps connected_hub_simps fires_at_def
      timeout_ms_def)

text \<open>
  The refresh also runs at once when the delay is beyond \<open>2 ^ 31 - 1\<close> ms: for a token
  that expires 182 days after the current time, the delay 15726340000 is passed as the
  claim says, and wraps to a negative timeout.
\<close>

lemma refresh_timer_long_lived:
  "setPermissionsFromToken utc_runtime 1584273600000 (JStr ''moderator'') connected_hub =
     Inr (connected_hub
            \<lparr>p_permissions := [(''update_hub'', JBool True), (''close_hub'', JBool False),
                               (''exp'', JNum (Num 1600000000))],
             events := [(''permissions_updated'', JNull)],
             timeouts :=
               [\<lparr>timer_handler = RefreshPermissions, timer_delay = Num 15726340000,
                 timer_set_at = 1584273600000\<rparr>]\<rparr>) \<and>
   fires_at \<lparr>timer_handler = RefreshPermissions, timer_delay = Num 15726340000,
             timer_set_at = 1584273600000\<rparr> = 1584273600000 \<and>
   fires_at \<lparr>timer_handler = RefreshPermissions, timer_delay = Num 15726340000,
             timer_set_at = 1584273600000\<rparr> \<noteq> 1600000000 * 1000 - 60000"
  by (simp add: setPermissionsFromToken_def Let_def dispatchEvent_def setTimeout_def
      moderator_decoded get_prop_simps connected_hub_simps fires_at_def timeout_ms_def)

section \<open>Entry timing flags\<close>

text \<open>
  C4. When a last-entry timestamp is stored, \<^verbatim>\<open>isNewDaily\<close> is false exactly when the
  stored value is a valid date whose year, month and day of the month, in local time, are
  those of the current time, and \<^verbatim>\<open>isNewMonthly\<close> is false exactly when it is a valid
  date whose year and month are those of the current time.
\<close>

theorem calendar_flags:
  "truthy (activity_lastEnteredAt (store h)) \<Longrightarrow>
   (isNewDaily (getEntryTimingFlags rt now h) \<longleftrightarrow>
      \<not> (\<exists>t. new_Date rt (activity_lastEnteredAt (store h)) = Num t \<and>
              YearFromTime rt t = YearFromTime rt now \<and>
              MonthFromTime rt t = MonthFromTime rt now \<and>
              DateFromTime rt t = DateFromTime rt now)) \<and>
   (isNewMonthly (getEntryTimingFlags rt now h) \<longleftrightarrow>
      \<not> (\<exists>t. new_Date rt (activity_lastEnteredAt (store h)) = Num t \<and>
              YearFromTime rt t = YearFromTime rt now \<and>
              MonthFromTime rt t = MonthFromTime rt now))"
  by (cases "new_Date rt (activity_lastEnteredAt (store h))")
     (auto simp: getEntryTimingFlags_def isSameDay_def isSameMonth_def Let_def)

text \<open>
  Last entry on 14 March 2020 at 13:00, current time 15 March 2020 at 12:00: a new day,
  the same month.
\<close>

theorem calendar_flags_witness:
  "truthy (activity_lastEnteredAt (store visited_hub)) \<and>
   isNewDaily (getEntryTimingFlags utc_runtime 1584273600000 visited_hub) \<and>
   \<not> isNewMonthly (getEntryTimingFlags utc_runtime 1584273600000 visited_hub)"
  using calendar_flags [of visited_hub utc_runtime 1584273600000]
  by (simp add: visited_hub_date utc_fields)

text \<open>
  C5. When a last-entry timestamp is stored, \<^verbatim>\<open>isNewDayWindow\<close> is true exactly when
  the stored value is a valid date and more than 86,400,000 ms have elapsed since, and
  \<^verbatim>\<open>isNewMonthWindow\<close> is true exactly when it is a valid date and more than
  2,592,000,000 ms have elapsed since.
\<close>

theorem window_flags:
  "truthy (activity_lastEnteredAt (store h)) \<Longrightarrow>
   (isNewDayWindow (getEntryTimingFlags rt now h) \<longleftrightarrow>
      (\<exists>t. new_Date rt (activity_lastEnteredAt (store h)) = Num t \<and> now - t > 86400000)) \<and>
   (isNewMonthWindow (getEntryTimingFlags rt now h) \<longleftrightarrow>
      (\<exists>t. new_Date rt (activity_lastEnteredAt (store h)) = Num t \<and> now - t > 2592000000))"
  by (simp add: getEntryTimingFlags_def Let_def num_gt_sub MS_PER_DAY_def MS_PER_MONTH_def)

text \<open>
  Exactly 24 hours after the last entry the day window is not new, one millisecond later
  it is; likewise for the month window at 30 times 24 hours.
\<close>

theorem window_flags_witness:
  "truthy (activity_lastEnteredAt (store visited_hub)) \<and>
   \<not> isNewDayWindow (getEntryTimingFlags utc_runtime 1584277200000 visited_hub) \<and>
   isNewDayWindow (getEntryTimingFlags utc_runtime 1584277200001 visited_hub) \<and>
   \<not> isNewMonthWindow (getEntryTimingFlags utc_runtime 1584277200001 visited_hub) \<and>
   \<not> isNewMonthWindow (getEntryTimingFlags utc_runtime 1586782800000 visited_hub) \<and>
   isNewMonthWindow (getEntryTimingFlags utc_runtime 1586782800001 visited_hub)"
  using window_flags [of visited_hub utc_runtime 1584277200000]
    window_flags [of visited_hub utc_runtime 1584277200001]
    window_flags [of visited_hub utc_runtime 1586782800000]
    window_flags [of visited_hub utc_runtime 1586782800001]
  by (simp add: visited_hub_date)

text \<open>
  C10. When the stored last-entry timestamp is falsy (undefined among others), the four
  flags are all true.
\<close>

theorem no_timestamp_all_new:
  "\<not> truthy (activity_lastEnteredAt (store h)) \<Longrightarrow>
   getEntryTimingFlags rt now h =
     \<lparr>isNewDaily = True, isNewMonthly = True, isNewDayWindow = True, isNewMonthWindow = True\<rparr>"
  by (simp add: getEntryTimingFlags_def)

theorem no_timestamp_all_new_witness:
  "\<not> truthy (activity_lastEnteredAt (store connected_hub)) \<and>
   getEntryTimingFlags utc_runtime 1584273600000 connected_hub =
     \<lparr>isNewDaily = True, isNewMonthly = True, isNewDayWindow = True, isNewMonthWindow = True\<rparr>"
  using no_timestamp_all_new [of connected_hub utc_runtime 1584273600000]
  by (simp add: connected_hub_simps)

section \<open>Hiding sessions\<close>

text \<open>
  C7. With an adapter connected, \<^verbatim>\<open>hide(s)\<close> adds \<open>s\<close> to the blocked sessions, so that
  \<^verbatim>\<open>isHidden(s)\<close> holds afterwards. \<^verbatim>\<open>unhide(s)\<close> for a session that is not blocked
  returns with the state as it was: the set is unchanged and neither the adapter nor the
  entities have been called. \<^verbatim>\<open>unhide(s)\<close> for a blocked session removes it from the
  set.
\<close>

theorem hide_unhide:
  "(adapter h = Some cs \<longrightarrow>
      (\<exists>h'. hide s h = Inr h' \<and>
            p_blockedSessionIds h' = insert s (p_blockedSessionIds h) \<and> isHidden s h')) \<and>
   (\<not> isHidden s h \<longrightarrow> unhide s h = Inr h) \<and>
   (isHidden s h \<and> adapter h = Some cs \<longrightarrow>
      (\<exists>h'. unhide s h = Inr h' \<and>
            p_blockedSessionIds h' = p_blockedSessionIds h - {s} \<and> \<not> isHidden s h'))"
  by (simp add: hide_def unhide_def isHidden_def)

theorem hide_unhide_witness:
  "adapter connected_hub = Some [] \<and> \<not> isHidden ''peer'' connected_hub \<and>
   hide ''peer'' connected_hub =
     Inr (connected_hub\<lparr>adapter := Some [Block ''peer''], p_blockedSessionIds := {''peer''}\<rparr>) \<and>
   unhide ''peer'' connected_hub = Inr connected_hub \<and>
   isHidden ''peer''
     (connected_hub\<lparr>adapter := Some [Block ''peer''], p_blockedSessionIds := {''peer''}\<rparr>) \<and>
   unhide ''peer''
       (connected_hub\<lparr>adapter := Some [Block ''peer''], p_blockedSessionIds := {''peer''}\<rparr>) =
     Inr (connected_hub
            \<lparr>adapter := Some [Block ''peer'', Unblock ''peer''],
             completeSyncs := [''peer''], p_blockedSessionIds := {}\<rparr>)"
  using hide_unhide [of connected_hub "[]" "''peer''"]
    hide_unhide
      [of "connected_hub\<lparr>adapter := Some [Block ''peer''], p_blockedSessionIds := {''peer''}\<rparr>"
          "[Block ''peer'']" "''peer''"]
  by (simp add: hide_def unhide_def isHidden_def connected_hub_simps
      connected_hub_def setPhoenixChannel_def HubChannel_def)

end
